theory Spec2Isabelle
  imports Main "HOL-Library.Word"
begin

unbundle bit_operations_syntax

section \<open>The draw descriptor of libs/hwui/Glop.h\<close>

text \<open>
  Glop.h declares one aggregate, \<^verbatim>\<open>struct Glop\<close>, and the enumeration
  \<^verbatim>\<open>VertexAttribFlags\<close>. It has no member functions: the operations of the
  descriptor are the ones C++ gives every such struct (member read, member
  assignment, initialisation, the implicit copy). The embedding turns each
  struct into a record, so that member read and member assignment are record
  selection and record update, and writes out the remaining operations as
  functions.
\<close>

subsection \<open>Scalar types\<close>

text \<open>
  A \<^verbatim>\<open>float\<close> is only stored and copied by this file, never computed with, so
  it is its IEEE-754 single-precision bit pattern (\<open>0x3F800000\<close> is 1.0).
  \<^verbatim>\<open>GLuint\<close> and \<^verbatim>\<open>GLenum\<close> are unsigned 32-bit; \<^verbatim>\<open>int\<close> and
  \<^verbatim>\<open>GLsizei\<close> are signed 32-bit and are read with \<open>sint\<close>.
\<close>

type_synonym float = "32 word"
type_synonym GLuint = "32 word"
type_synonym GLenum = "32 word"
type_synonym GLsizei = "32 word"
type_synonym cint = "32 word"

text \<open>
  \<^verbatim>\<open>const void*\<close> and \<^verbatim>\<open>Program*\<close>: a non-owning pointer is null or the
  identity of the object it refers to.
\<close>

datatype ptr = nullptr | Ptr nat

text \<open>
  The two primitive modes named at Glop.h:72, with their values in the Khronos
  header \<^verbatim>\<open><GLES2/gl2.h>\<close> included at line 24.
\<close>

definition GL_TRIANGLES :: GLuint where
  "GL_TRIANGLES = 0x0004"

definition GL_TRIANGLE_STRIP :: GLuint where
  "GL_TRIANGLE_STRIP = 0x0005"

subsection \<open>VertexAttribFlags (Glop.h:39-45)\<close>

text \<open>
  An unscoped enumeration used as a bit set: the field holds any combination
  of the enumerators, so it is the 32-bit value itself.
\<close>

type_synonym VertexAttribFlags = "32 word"

definition kNone_Attrib :: VertexAttribFlags where
  "kNone_Attrib = 0"

definition kTextureCoord_Attrib :: VertexAttribFlags where
  "kTextureCoord_Attrib = push_bit 0 1"

definition kColor_Attrib :: VertexAttribFlags where
  "kColor_Attrib = push_bit 1 1"

definition kAlpha_Attrib :: VertexAttribFlags where
  "kAlpha_Attrib = push_bit 2 1"

text \<open>All enumerators, in declaration order.\<close>

definition VertexAttribFlags_enumerators :: "VertexAttribFlags list" where
  "VertexAttribFlags_enumerators =
     [kNone_Attrib, kTextureCoord_Attrib, kColor_Attrib, kAlpha_Attrib]"

text \<open>
  Building a flag set (\<^verbatim>\<open>(t ? kTextureCoord_Attrib : kNone_Attrib) | ...\<close>) and
  testing one flag of it (\<^verbatim>\<open>flags & f\<close>, as a condition).
\<close>

definition VertexAttribFlags_of :: "bool \<Rightarrow> bool \<Rightarrow> bool \<Rightarrow> VertexAttribFlags" where
  "VertexAttribFlags_of t c al =
     (if t then kTextureCoord_Attrib else kNone_Attrib) OR
     (if c then kColor_Attrib else kNone_Attrib) OR
     (if al then kAlpha_Attrib else kNone_Attrib)"

definition has_Attrib :: "VertexAttribFlags \<Rightarrow> VertexAttribFlags \<Rightarrow> bool" where
  "has_Attrib flags f = (flags AND f \<noteq> 0)"

subsection \<open>The nested structs (Glop.h:57-117)\<close>

record FloatColor =
  a :: float
  r :: float
  g :: float
  b :: float

text \<open>
  The members of a \<^verbatim>\<open>FloatColor\<close> in declaration order, which is the order
  of their addresses: four consecutive float slots.
\<close>

definition FloatColor_slots :: "FloatColor \<Rightarrow> float list" where
  "FloatColor_slots c = [a c, r c, g c, b c]"

record Mesh =
  vertexFlags :: VertexAttribFlags
  primitiveMode :: GLuint
  vertexBufferObject :: GLuint
  indexBufferObject :: GLuint
  vertices :: ptr
  indices :: ptr
  vertexCount :: cint
  stride :: GLsizei

text \<open>
  Modelled from the spec: \<^verbatim>\<open>ProgramDescription::ColorFilterMode\<close> is declared in
  Program.h, which is not among the sources. The spec gives the modes as none,
  matrix and blend-mode; enumerators number from 0 in this order.
\<close>

datatype ColorFilterMode = kColorNone | kColorMatrix | kColorBlend

text \<open>
  \<^verbatim>\<open>struct Matrix\<close> inside the union: \<^verbatim>\<open>float matrix[16]; float vector[4];\<close>.
  An array is the list of its elements; a value of the struct has arrays of
  exactly the declared sizes.
\<close>

record Filter_Matrix =
  matrix :: "float list"
  vector :: "float list"

definition Filter_Matrix_wf :: "Filter_Matrix \<Rightarrow> bool" where
  "Filter_Matrix_wf m = (length (matrix m) = 16 \<and> length (vector m) = 4)"

text \<open>
  \<^verbatim>\<open>union Filter { struct Matrix {...} matrix; FloatColor color; }\<close>. Both arms
  start at the union's address, so the union is its storage: 20 float slots,
  the size of the larger arm. The \<^verbatim>\<open>matrix\<close> arm is slots 0-15 (the array
  \<^verbatim>\<open>matrix\<close>) and 16-19 (\<^verbatim>\<open>vector\<close>); the \<^verbatim>\<open>color\<close> arm is slots 0-3.
  The union stores no record of which arm was written last.
\<close>

type_synonym Filter = "float list"

definition Filter_wf :: "Filter \<Rightarrow> bool" where
  "Filter_wf s = (length s = 20)"

text \<open>Reading \<^verbatim>\<open>filter.matrix\<close> and assigning to it.\<close>

definition Filter_matrix :: "Filter \<Rightarrow> Filter_Matrix" where
  "Filter_matrix s = \<lparr>matrix = take 16 s, vector = take 4 (drop 16 s)\<rparr>"

definition Filter_matrix_update :: "Filter_Matrix \<Rightarrow> Filter \<Rightarrow> Filter" where
  "Filter_matrix_update m s = matrix m @ vector m @ drop 20 s"

text \<open>Reading \<^verbatim>\<open>filter.color\<close> and assigning to it.\<close>

definition Filter_color :: "Filter \<Rightarrow> FloatColor" where
  "Filter_color s = \<lparr>a = s ! 0, r = s ! 1, g = s ! 2, b = s ! 3\<rparr>"

definition Filter_color_update :: "FloatColor \<Rightarrow> Filter \<Rightarrow> Filter" where
  "Filter_color_update c s = FloatColor_slots c @ drop 4 s"

record Fill =
  program :: ptr
  color :: FloatColor
  filterMode :: ColorFilterMode
  filter :: Filter

text \<open>
  \<^verbatim>\<open>Matrix4\<close> (Matrix.h) and \<^verbatim>\<open>Rect\<close> (Rect.h) are not among the sources:
  they are the type parameters \<open>'mat4\<close> and \<open>'rect\<close>.
\<close>

record 'mat4 Transform =
  ortho :: 'mat4
  modelView :: 'mat4
  canvas :: 'mat4
  fudgingOffset :: bool

record Blend =
  src :: GLenum
  dst :: GLenum

record ('rect, 'mat4) Glop =
  bounds :: 'rect
  mesh :: Mesh
  fill :: Fill
  transform :: "'mat4 Transform"
  blend :: Blend

subsection \<open>Member assignment\<close>

text \<open>
  The struct has no setters: a producer writes a member with an assignment
  such as \<^verbatim>\<open>glop.mesh.vertexCount = n;\<close>. One constructor per assignable
  member; for the union, one per arm. A write into a part of the bounds or of
  a matrix gives that member some new value, so it is the assignment of that
  value to the member.
\<close>

datatype ('rect, 'mat4) Glop_write =
    W_bounds 'rect
  | W_mesh_vertexFlags VertexAttribFlags
  | W_mesh_primitiveMode GLuint
  | W_mesh_vertexBufferObject GLuint
  | W_mesh_indexBufferObject GLuint
  | W_mesh_vertices ptr
  | W_mesh_indices ptr
  | W_mesh_vertexCount cint
  | W_mesh_stride GLsizei
  | W_fill_program ptr
  | W_fill_color FloatColor
  | W_fill_filterMode ColorFilterMode
  | W_fill_filter_matrix Filter_Matrix
  | W_fill_filter_color FloatColor
  | W_transform_ortho 'mat4
  | W_transform_modelView 'mat4
  | W_transform_canvas 'mat4
  | W_transform_fudgingOffset bool
  | W_blend_src GLenum
  | W_blend_dst GLenum

fun Glop_assign :: "('rect, 'mat4) Glop_write \<Rightarrow> ('rect, 'mat4) Glop \<Rightarrow> ('rect, 'mat4) Glop" where
  "Glop_assign (W_bounds v) glop = glop\<lparr>bounds := v\<rparr>"
| "Glop_assign (W_mesh_vertexFlags v) glop = glop\<lparr>mesh := (mesh glop)\<lparr>vertexFlags := v\<rparr>\<rparr>"
| "Glop_assign (W_mesh_primitiveMode v) glop = glop\<lparr>mesh := (mesh glop)\<lparr>primitiveMode := v\<rparr>\<rparr>"
| "Glop_assign (W_mesh_vertexBufferObject v) glop =
     glop\<lparr>mesh := (mesh glop)\<lparr>vertexBufferObject := v\<rparr>\<rparr>"
| "Glop_assign (W_mesh_indexBufferObject v) glop =
     glop\<lparr>mesh := (mesh glop)\<lparr>indexBufferObject := v\<rparr>\<rparr>"
| "Glop_assign (W_mesh_vertices v) glop = glop\<lparr>mesh := (mesh glop)\<lparr>vertices := v\<rparr>\<rparr>"
| "Glop_assign (W_mesh_indices v) glop = glop\<lparr>mesh := (mesh glop)\<lparr>indices := v\<rparr>\<rparr>"
| "Glop_assign (W_mesh_vertexCount v) glop = glop\<lparr>mesh := (mesh glop)\<lparr>vertexCount := v\<rparr>\<rparr>"
| "Glop_assign (W_mesh_stride v) glop = glop\<lparr>mesh := (mesh glop)\<lparr>stride := v\<rparr>\<rparr>"
| "Glop_assign (W_fill_program v) glop = glop\<lparr>fill := (fill glop)\<lparr>program := v\<rparr>\<rparr>"
| "Glop_assign (W_fill_color v) glop = glop\<lparr>fill := (fill glop)\<lparr>color := v\<rparr>\<rparr>"
| "Glop_assign (W_fill_filterMode v) glop = glop\<lparr>fill := (fill glop)\<lparr>filterMode := v\<rparr>\<rparr>"
| "Glop_assign (W_fill_filter_matrix v) glop =
     glop\<lparr>fill := (fill glop)\<lparr>filter := Filter_matrix_update v (filter (fill glop))\<rparr>\<rparr>"
| "Glop_assign (W_fill_filter_color v) glop =
     glop\<lparr>fill := (fill glop)\<lparr>filter := Filter_color_update v (filter (fill glop))\<rparr>\<rparr>"
| "Glop_assign (W_transform_ortho v) glop = glop\<lparr>transform := (transform glop)\<lparr>ortho := v\<rparr>\<rparr>"
| "Glop_assign (W_transform_modelView v) glop =
     glop\<lparr>transform := (transform glop)\<lparr>modelView := v\<rparr>\<rparr>"
| "Glop_assign (W_transform_canvas v) glop = glop\<lparr>transform := (transform glop)\<lparr>canvas := v\<rparr>\<rparr>"
| "Glop_assign (W_transform_fudgingOffset v) glop =
     glop\<lparr>transform := (transform glop)\<lparr>fudgingOffset := v\<rparr>\<rparr>"
| "Glop_assign (W_blend_src v) glop = glop\<lparr>blend := (blend glop)\<lparr>src := v\<rparr>\<rparr>"
| "Glop_assign (W_blend_dst v) glop = glop\<lparr>blend := (blend glop)\<lparr>dst := v\<rparr>\<rparr>"

text \<open>The top-level member of \<^verbatim>\<open>Glop\<close> that an assignment goes into.\<close>

datatype Glop_member = M_bounds | M_mesh | M_fill | M_transform | M_blend

fun member_of :: "('rect, 'mat4) Glop_write \<Rightarrow> Glop_member" where
  "member_of (W_bounds v) = M_bounds"
| "member_of (W_mesh_vertexFlags v) = M_mesh"
| "member_of (W_mesh_primitiveMode v) = M_mesh"
| "member_of (W_mesh_vertexBufferObject v) = M_mesh"
| "member_of (W_mesh_indexBufferObject v) = M_mesh"
| "member_of (W_mesh_vertices v) = M_mesh"
| "member_of (W_mesh_indices v) = M_mesh"
| "member_of (W_mesh_vertexCount v) = M_mesh"
| "member_of (W_mesh_stride v) = M_mesh"
| "member_of (W_fill_program v) = M_fill"
| "member_of (W_fill_color v) = M_fill"
| "member_of (W_fill_filterMode v) = M_fill"
| "member_of (W_fill_filter_matrix v) = M_fill"
| "member_of (W_fill_filter_color v) = M_fill"
| "member_of (W_transform_ortho v) = M_transform"
| "member_of (W_transform_modelView v) = M_transform"
| "member_of (W_transform_canvas v) = M_transform"
| "member_of (W_transform_fudgingOffset v) = M_transform"
| "member_of (W_blend_src v) = M_blend"
| "member_of (W_blend_dst v) = M_blend"

subsection \<open>The active arm of the union\<close>

text \<open>
  The union stores no record of the arm in use, but the language has one: the
  active member of a union object is the member written last, and a read of a
  member has a defined result only while that member is active. The two arms
  here have no common initial sequence (the first member of one is
  \<^verbatim>\<open>float[16]\<close>, of the other \<^verbatim>\<open>float\<close>), so there is no exception
  for them. The active arm is thus a fact of the execution, kept beside the
  descriptor: \<open>None\<close> when no arm has been written.
\<close>

datatype Filter_arm = Arm_matrix | Arm_color

fun active_after :: "('rect, 'mat4) Glop_write \<Rightarrow> Filter_arm option \<Rightarrow> Filter_arm option" where
  "active_after (W_fill_filter_matrix v) act = Some Arm_matrix"
| "active_after (W_fill_filter_color v) act = Some Arm_color"
| "active_after w act = act"

definition Glop_assign_exec ::
  "('rect, 'mat4) Glop_write \<Rightarrow> ('rect, 'mat4) Glop \<times> Filter_arm option
     \<Rightarrow> ('rect, 'mat4) Glop \<times> Filter_arm option" where
  "Glop_assign_exec w st = (Glop_assign w (fst st), active_after w (snd st))"

text \<open>
  The reads \<^verbatim>\<open>glop.fill.filter.matrix\<close> and \<^verbatim>\<open>glop.fill.filter.color\<close> as the
  language defines them: the value in the storage when the arm is active, no
  defined result otherwise. Neither looks at \<^verbatim>\<open>filterMode\<close>.
\<close>

definition Filter_matrix_read ::
  "('rect, 'mat4) Glop \<times> Filter_arm option \<Rightarrow> Filter_Matrix option" where
  "Filter_matrix_read st =
     (if snd st = Some Arm_matrix then Some (Filter_matrix (filter (fill (fst st)))) else None)"

definition Filter_color_read ::
  "('rect, 'mat4) Glop \<times> Filter_arm option \<Rightarrow> FloatColor option" where
  "Filter_color_read st =
     (if snd st = Some Arm_color then Some (Filter_color (filter (fill (fst st)))) else None)"

subsection \<open>Initialisation and copying\<close>

text \<open>
  \<^verbatim>\<open>struct Glop\<close> declares no constructor, no default member initialiser, no
  copy constructor and no assignment operator (line 56 is a comment), so the
  language supplies them.

  Zero-initialisation sets every scalar to 0, every pointer to null, the
  \<^verbatim>\<open>bool\<close> to false, an enumeration to its value 0 and every slot of the
  union to 0.
\<close>

definition FloatColor_zero :: FloatColor where
  "FloatColor_zero = \<lparr>a = 0, r = 0, g = 0, b = 0\<rparr>"

definition Mesh_zero :: Mesh where
  "Mesh_zero = \<lparr>vertexFlags = kNone_Attrib, primitiveMode = 0, vertexBufferObject = 0,
     indexBufferObject = 0, vertices = nullptr, indices = nullptr, vertexCount = 0,
     stride = 0\<rparr>"

definition Fill_zero :: Fill where
  "Fill_zero = \<lparr>program = nullptr, color = FloatColor_zero, filterMode = kColorNone,
     filter = replicate 20 0\<rparr>"

definition Blend_zero :: Blend where
  "Blend_zero = \<lparr>src = 0, dst = 0\<rparr>"

text \<open>
  Modelled from the spec: the default constructors of \<^verbatim>\<open>Rect\<close> and
  \<^verbatim>\<open>Matrix4\<close> are in Rect.h and Matrix.h, which are not among the sources.
  The spec says that a default-constructed descriptor has identity matrices, so
  these members are given a value by their own constructors; \<open>rect0\<close> and
  \<open>mat0\<close> are the values that \<^verbatim>\<open>Rect()\<close> and \<^verbatim>\<open>Matrix4()\<close> construct.

  Default-initialisation (\<^verbatim>\<open>Glop glop;\<close> or \<^verbatim>\<open>new Glop\<close>, for an object
  of automatic or dynamic storage duration) runs the implicit default
  constructor, which default-constructs the members of class type and performs
  no initialisation of the others. \<^verbatim>\<open>mesh\<close>, \<^verbatim>\<open>fill\<close> and \<^verbatim>\<open>blend\<close>
  consist of scalars only, and so does \<^verbatim>\<open>transform.fudgingOffset\<close>: their
  values are indeterminate. The object right after the declaration is
  therefore not a descriptor with a value in every field: a member whose value
  is indeterminate is \<open>None\<close>, and a read of it yields no value.
\<close>

record 'mat4 Transform_uninit =
  u_ortho :: 'mat4
  u_modelView :: 'mat4
  u_canvas :: 'mat4
  u_fudgingOffset :: "bool option"

record ('rect, 'mat4) Glop_uninit =
  u_bounds :: 'rect
  u_mesh :: "Mesh option"
  u_fill :: "Fill option"
  u_transform :: "'mat4 Transform_uninit"
  u_blend :: "Blend option"

definition Glop_default_init :: "'rect \<Rightarrow> 'mat4 \<Rightarrow> ('rect, 'mat4) Glop_uninit" where
  "Glop_default_init rect0 mat0 =
     \<lparr>u_bounds = rect0, u_mesh = None, u_fill = None,
      u_transform = \<lparr>u_ortho = mat0, u_modelView = mat0, u_canvas = mat0,
        u_fudgingOffset = None\<rparr>,
      u_blend = None\<rparr>"

text \<open>A descriptor with a value in every field, as such an object.\<close>

definition Glop_determinate :: "('rect, 'mat4) Glop \<Rightarrow> ('rect, 'mat4) Glop_uninit" where
  "Glop_determinate glop =
     \<lparr>u_bounds = bounds glop, u_mesh = Some (mesh glop), u_fill = Some (fill glop),
      u_transform = \<lparr>u_ortho = ortho (transform glop), u_modelView = modelView (transform glop),
        u_canvas = canvas (transform glop),
        u_fudgingOffset = Some (fudgingOffset (transform glop))\<rparr>,
      u_blend = Some (blend glop)\<rparr>"

text \<open>
  Value-initialisation (\<^verbatim>\<open>Glop()\<close>, \<^verbatim>\<open>Glop glop{};\<close>) zero-initialises the
  object and then default-constructs the members of class type.
\<close>

definition Glop_value_init :: "'rect \<Rightarrow> 'mat4 \<Rightarrow> ('rect, 'mat4) Glop" where
  "Glop_value_init rect0 mat0 =
     \<lparr>bounds = rect0, mesh = Mesh_zero, fill = Fill_zero,
      transform = \<lparr>ortho = mat0, modelView = mat0, canvas = mat0, fudgingOffset = False\<rparr>,
      blend = Blend_zero\<rparr>"

text \<open>
  The implicit copy constructor copies member by member; the implicit copy
  assignment \<^verbatim>\<open>target = source\<close> does the same into an existing object.
\<close>

definition Glop_copy :: "('rect, 'mat4) Glop \<Rightarrow> ('rect, 'mat4) Glop" where
  "Glop_copy source =
     \<lparr>bounds = bounds source, mesh = mesh source, fill = fill source,
      transform = transform source, blend = blend source\<rparr>"

definition Glop_copy_assign :: "('rect, 'mat4) Glop \<Rightarrow> ('rect, 'mat4) Glop \<Rightarrow> ('rect, 'mat4) Glop" where
  "Glop_copy_assign target source =
     target\<lparr>bounds := bounds source, mesh := mesh source, fill := fill source,
            transform := transform source, blend := blend source\<rparr>"

subsection \<open>What the comments of the struct ask of a descriptor\<close>

text \<open>Glop.h:72: \<^verbatim>\<open>GL_TRIANGLES and GL_TRIANGLE_STRIP supported\<close>.\<close>

definition primitiveMode_supported :: "GLuint \<Rightarrow> bool" where
  "primitiveMode_supported p = (p = GL_TRIANGLES \<or> p = GL_TRIANGLE_STRIP)"

subsection \<open>Concrete descriptors\<close>

text \<open>
  For concrete descriptors a rectangle is its four floats and a 4x4 matrix its
  sixteen. \<open>0x3F800000\<close> is 1.0, \<open>0x3F000000\<close> is 0.5, \<open>0x42C80000\<close> is 100.0.
\<close>

definition identity16 :: "float list" where
  "identity16 = [0x3F800000, 0, 0, 0,  0, 0x3F800000, 0, 0,  0, 0, 0x3F800000, 0,
                 0, 0, 0, 0x3F800000]"

text \<open>
  Modelled from the spec: Matrix.h is not among the sources. The spec says that
  the matrices of a default-constructed descriptor are the identity, so
  \<^verbatim>\<open>Matrix4()\<close> constructs the identity matrix.
\<close>

definition Matrix4_default :: "float list" where
  "Matrix4_default = identity16"

text \<open>The solid-colour triangle streamed from client memory.\<close>

definition solid_triangle :: "(float list, float list) Glop" where
  "solid_triangle =
     \<lparr>bounds = [0, 0, 0x42C80000, 0x42C80000],
      mesh = \<lparr>vertexFlags = kNone_Attrib, primitiveMode = GL_TRIANGLES, vertexBufferObject = 0,
        indexBufferObject = 0, vertices = Ptr 1, indices = nullptr, vertexCount = 3,
        stride = 8\<rparr>,
      fill = \<lparr>program = Ptr 2,
        color = \<lparr>a = 0x3F800000, r = 0x3F800000, g = 0, b = 0\<rparr>,
        filterMode = kColorNone, filter = replicate 20 0\<rparr>,
      transform = \<lparr>ortho = identity16, modelView = identity16, canvas = identity16,
        fudgingOffset = False\<rparr>,
      blend = \<lparr>src = 1, dst = 0\<rparr>\<rparr>"

text \<open>The payload of a colour-matrix filter that changes nothing, and a blend colour.\<close>

definition identity_filter :: Filter_Matrix where
  "identity_filter = \<lparr>matrix = identity16, vector = [0, 0, 0, 0]\<rparr>"

definition half_grey :: FloatColor where
  "half_grey = \<lparr>a = 0x3F800000, r = 0x3F000000, g = 0x3F000000, b = 0x3F000000\<rparr>"

section \<open>Properties\<close>

subsection \<open>Auxiliary facts\<close>

lemmas Attrib_defs =
  kNone_Attrib_def kTextureCoord_Attrib_def kColor_Attrib_def kAlpha_Attrib_def

lemma has_Attrib_push_bit: "has_Attrib v (push_bit k 1) = bit v k"
  by (simp add: has_Attrib_def bit_iff_and_push_bit_not_eq_0)

lemma less_3_cases: "n < 3 \<longleftrightarrow> n = 0 \<or> n = Suc 0 \<or> n = 2" for n :: nat
  by auto

lemma flags_decompose:
  "v AND 7 = VertexAttribFlags_of (has_Attrib v kTextureCoord_Attrib)
       (has_Attrib v kColor_Attrib) (has_Attrib v kAlpha_Attrib)"
proof -
  have m: "(7 :: 32 word) = mask 3"
    by (simp add: mask_eq_exp_minus_1)
  show ?thesis
    unfolding kTextureCoord_Attrib_def kColor_Attrib_def kAlpha_Attrib_def has_Attrib_push_bit
      VertexAttribFlags_of_def kNone_Attrib_def m
    by (rule bit_word_eqI)
      (auto simp add: bit_simps less_3_cases simp del: push_bit_of_1 intro!: gr0I)
qed

lemma Filter_matrix_after_update:
  "Filter_Matrix_wf m \<Longrightarrow> Filter_matrix (Filter_matrix_update m s) = m"
  by (simp add: Filter_matrix_def Filter_matrix_update_def Filter_Matrix_wf_def)

lemma Filter_color_after_update: "Filter_color (Filter_color_update c s) = c"
  by (simp add: Filter_color_def Filter_color_update_def FloatColor_slots_def)

lemma Filter_matrix_after_color_update:
  "take 4 (matrix (Filter_matrix (Filter_color_update c s))) = FloatColor_slots c"
  "drop 4 (matrix (Filter_matrix (Filter_color_update c s))) = drop 4 (matrix (Filter_matrix s))"
  "vector (Filter_matrix (Filter_color_update c s)) = vector (Filter_matrix s)"
  by (simp_all add: Filter_matrix_def Filter_color_update_def FloatColor_slots_def drop_take)

lemma Filter_color_after_matrix_update:
  "Filter_Matrix_wf m \<Longrightarrow>
   Filter_color (Filter_matrix_update m s) =
     \<lparr>a = matrix m ! 0, r = matrix m ! 1, g = matrix m ! 2, b = matrix m ! 3\<rparr>"
  by (simp add: Filter_color_def Filter_matrix_update_def Filter_Matrix_wf_def nth_append)

lemma identity_filter_wf: "Filter_Matrix_wf identity_filter"
  by (simp add: Filter_Matrix_wf_def identity_filter_def identity16_def)

lemma Filter_color_update_wf: "Filter_wf s \<Longrightarrow> Filter_wf (Filter_color_update c s)"
  by (simp add: Filter_wf_def Filter_color_update_def FloatColor_slots_def)

lemma Filter_matrix_update_wf:
  "Filter_Matrix_wf m \<Longrightarrow> Filter_wf s \<Longrightarrow> Filter_wf (Filter_matrix_update m s)"
  by (simp add: Filter_wf_def Filter_matrix_update_def Filter_Matrix_wf_def)

lemma Filter_matrix_wf: "Filter_wf s \<Longrightarrow> Filter_Matrix_wf (Filter_matrix s)"
  by (simp add: Filter_wf_def Filter_matrix_def Filter_Matrix_wf_def)

lemma Fill_zero_filter_wf: "Filter_wf (filter Fill_zero)"
  by (simp add: Filter_wf_def Fill_zero_def)

lemma sint_32_range: "- (2 ^ 31) \<le> sint n \<and> sint n < 2 ^ 31" for n :: "32 word"
  using sint_ge [of n] sint_lt [of n] by simp

subsection \<open>Copying\<close>

text \<open>
  C1 says that copy construction and copy assignment of a descriptor are
  disabled. The struct does not disable them: line 56 only notes
  \<^verbatim>\<open>TODO: PREVENT_COPY_AND_ASSIGN(...) or similar\<close>, so the implicit
  member-wise copy is available. Copy construction of any descriptor yields a
  second descriptor equal to it in every member, copy assignment makes any
  target equal to the source, and in particular the solid-colour triangle is
  duplicated.
\<close>

theorem Glop_copy_duplicates:
  "Glop_copy glop = glop
   \<and> Glop_copy_assign target glop = glop
   \<and> Glop_copy solid_triangle = solid_triangle"
  by (simp add: Glop_copy_def Glop_copy_assign_def)

subsection \<open>Initialisation\<close>

text \<open>
  C2, as stated, fails for default-initialisation: the struct has no
  constructor and no member initialiser, so after \<^verbatim>\<open>Glop glop;\<close> the buffer
  handles, the client pointers, the vertex count, the flag set, the primitive
  mode, the program pointer, the colour, fudging-offset and the blend factors
  have no determinate value, so none of them is 0, null or false, and the
  object is not the zeroed descriptor.
\<close>

theorem Glop_default_init_indeterminate:
  "map_option vertexBufferObject (u_mesh (Glop_default_init [0, 0, 0, 0] Matrix4_default))
     \<noteq> Some 0
   \<and> map_option vertices (u_mesh (Glop_default_init [0, 0, 0, 0] Matrix4_default))
     \<noteq> Some nullptr
   \<and> map_option indices (u_mesh (Glop_default_init [0, 0, 0, 0] Matrix4_default))
     \<noteq> Some nullptr
   \<and> map_option vertexCount (u_mesh (Glop_default_init [0, 0, 0, 0] Matrix4_default))
     \<noteq> Some 0
   \<and> map_option vertexFlags (u_mesh (Glop_default_init [0, 0, 0, 0] Matrix4_default))
     \<noteq> Some kNone_Attrib
   \<and> map_option primitiveMode (u_mesh (Glop_default_init [0, 0, 0, 0] Matrix4_default))
     \<noteq> Some 0
   \<and> map_option program (u_fill (Glop_default_init [0, 0, 0, 0] Matrix4_default))
     \<noteq> Some nullptr
   \<and> map_option color (u_fill (Glop_default_init [0, 0, 0, 0] Matrix4_default))
     \<noteq> Some FloatColor_zero
   \<and> u_fudgingOffset (u_transform (Glop_default_init [0, 0, 0, 0] Matrix4_default))
     \<noteq> Some False
   \<and> map_option src (u_blend (Glop_default_init [0, 0, 0, 0] Matrix4_default)) \<noteq> Some 0
   \<and> map_option dst (u_blend (Glop_default_init [0, 0, 0, 0] Matrix4_default)) \<noteq> Some 0
   \<and> Glop_default_init [0, 0, 0, 0] Matrix4_default
     \<noteq> Glop_determinate (Glop_value_init [0, 0, 0, 0] Matrix4_default)"
  by (simp add: Glop_default_init_def Glop_determinate_def)

text \<open>
  C2, amended: value-initialisation of a Glop (\<^verbatim>\<open>Glop()\<close>, \<^verbatim>\<open>Glop glop{};\<close>)
  zeroes or neutralises every field: both buffer handles are 0, the client
  vertex and index pointers are null, vertex count and stride are 0, the flag
  set is empty, the primitive mode is 0 (neither supported mode), the program
  pointer is null, the colour is {0,0,0,0}, the filter mode is none, the
  filter payload is all zero, the three matrices are the identity,
  fudging-offset is false, both blend factors are 0, and the bounds are what
  the default constructor of Rect produces.
\<close>

theorem Glop_value_init_zeroes:
  "vertexFlags (mesh (Glop_value_init rect0 Matrix4_default)) = kNone_Attrib
   \<and> vertexFlags (mesh (Glop_value_init rect0 Matrix4_default)) = 0
   \<and> primitiveMode (mesh (Glop_value_init rect0 Matrix4_default)) = 0
   \<and> \<not> primitiveMode_supported (primitiveMode (mesh (Glop_value_init rect0 Matrix4_default)))
   \<and> vertexBufferObject (mesh (Glop_value_init rect0 Matrix4_default)) = 0
   \<and> indexBufferObject (mesh (Glop_value_init rect0 Matrix4_default)) = 0
   \<and> vertices (mesh (Glop_value_init rect0 Matrix4_default)) = nullptr
   \<and> indices (mesh (Glop_value_init rect0 Matrix4_default)) = nullptr
   \<and> vertexCount (mesh (Glop_value_init rect0 Matrix4_default)) = 0
   \<and> stride (mesh (Glop_value_init rect0 Matrix4_default)) = 0
   \<and> program (fill (Glop_value_init rect0 Matrix4_default)) = nullptr
   \<and> color (fill (Glop_value_init rect0 Matrix4_default)) = \<lparr>a = 0, r = 0, g = 0, b = 0\<rparr>
   \<and> filterMode (fill (Glop_value_init rect0 Matrix4_default)) = kColorNone
   \<and> filter (fill (Glop_value_init rect0 Matrix4_default)) = replicate 20 0
   \<and> bounds (Glop_value_init rect0 Matrix4_default) = rect0
   \<and> ortho (transform (Glop_value_init rect0 Matrix4_default))
     = [0x3F800000, 0, 0, 0,  0, 0x3F800000, 0, 0,  0, 0, 0x3F800000, 0,  0, 0, 0, 0x3F800000]
   \<and> modelView (transform (Glop_value_init rect0 Matrix4_default))
     = [0x3F800000, 0, 0, 0,  0, 0x3F800000, 0, 0,  0, 0, 0x3F800000, 0,  0, 0, 0, 0x3F800000]
   \<and> canvas (transform (Glop_value_init rect0 Matrix4_default))
     = [0x3F800000, 0, 0, 0,  0, 0x3F800000, 0, 0,  0, 0, 0x3F800000, 0,  0, 0, 0, 0x3F800000]
   \<and> fudgingOffset (transform (Glop_value_init rect0 Matrix4_default)) = False
   \<and> src (blend (Glop_value_init rect0 Matrix4_default)) = 0
   \<and> dst (blend (Glop_value_init rect0 Matrix4_default)) = 0"
  by (simp add: Glop_value_init_def Mesh_zero_def Fill_zero_def Blend_zero_def
      FloatColor_zero_def primitiveMode_supported_def GL_TRIANGLES_def GL_TRIANGLE_STRIP_def
      Matrix4_default_def identity16_def kNone_Attrib_def)

subsection \<open>The filter payload\<close>

text \<open>
  C4: when the colour-filter mode is the matrix mode, assigning a 4x4 matrix
  and a 4-vector to the matrix arm of the payload and reading that arm yields
  exactly the matrix and the vector assigned; when the mode is the blend-mode
  colour mode, assigning a colour to the colour arm and reading that arm
  yields exactly the colour assigned.
\<close>

theorem Filter_active_arm_roundtrip:
  "(filterMode (fill glop) = kColorMatrix \<and> Filter_Matrix_wf m \<longrightarrow>
      Filter_matrix (filter (fill (Glop_assign (W_fill_filter_matrix m) glop))) = m)
   \<and> (filterMode (fill glop) = kColorBlend \<longrightarrow>
      Filter_color (filter (fill (Glop_assign (W_fill_filter_color c) glop))) = c)"
  by (simp add: Filter_matrix_after_update Filter_color_after_update)

theorem Filter_active_arm_roundtrip_witness:
  "filterMode (fill (Glop_assign (W_fill_filterMode kColorMatrix) solid_triangle)) = kColorMatrix
   \<and> Filter_Matrix_wf identity_filter
   \<and> Filter_matrix (filter (fill (Glop_assign (W_fill_filter_matrix identity_filter)
        (Glop_assign (W_fill_filterMode kColorMatrix) solid_triangle)))) = identity_filter
   \<and> filterMode (fill (Glop_assign (W_fill_filterMode kColorBlend) solid_triangle)) = kColorBlend
   \<and> Filter_color (filter (fill (Glop_assign (W_fill_filter_color half_grey)
        (Glop_assign (W_fill_filterMode kColorBlend) solid_triangle)))) = half_grey"
  using Filter_active_arm_roundtrip [of "Glop_assign (W_fill_filterMode kColorMatrix) solid_triangle"
      identity_filter half_grey]
    Filter_active_arm_roundtrip [of "Glop_assign (W_fill_filterMode kColorBlend) solid_triangle"
      identity_filter half_grey]
    identity_filter_wf
  by simp

text \<open>
  C9, as stated, fails: after a colour is assigned to the colour arm, the read
  of the matrix arm has no defined result, whether the matrix arm was active
  before or no arm was, and whatever the filter mode is then set to.
\<close>

theorem Filter_inactive_arm_read_undefined:
  "Filter_matrix_read
      (Glop_assign_exec (W_fill_filter_color half_grey) (solid_triangle, Some Arm_matrix)) = None
   \<and> Filter_matrix_read
      (Glop_assign_exec (W_fill_filter_color half_grey) (solid_triangle, None)) = None
   \<and> Filter_matrix_read
      (Glop_assign_exec (W_fill_filterMode kColorMatrix)
        (Glop_assign_exec (W_fill_filter_color half_grey) (solid_triangle, Some Arm_matrix)))
      = None"
  by (simp add: Filter_matrix_read_def Glop_assign_exec_def)

text \<open>
  C9, amended: the payload is an untagged union whose two arms share storage
  and whose reads are never guarded by the filter-mode tag. Whatever the tag
  is set to, after a colour is assigned to the colour arm the storage of the
  first four entries of the matrix array holds the colour's a, r, g, b (the
  storage of the other twelve entries and of the vector is unchanged), and
  after the matrix arm is assigned the storage of the colour arm holds the
  first four entries of the matrix array. A read has a defined result only
  for the arm assigned last, and it is the value assigned; the read of the
  other arm has no defined result. Assigning the filter mode changes the
  result of neither read.
\<close>

theorem Filter_arms_share_storage:
  "take 4 (matrix (Filter_matrix (filter (fill
      (Glop_assign (W_fill_filterMode md) (Glop_assign (W_fill_filter_color c) glop))))))
     = [a c, r c, g c, b c]
   \<and> drop 4 (matrix (Filter_matrix (filter (fill
      (Glop_assign (W_fill_filterMode md) (Glop_assign (W_fill_filter_color c) glop))))))
     = drop 4 (matrix (Filter_matrix (filter (fill glop))))
   \<and> vector (Filter_matrix (filter (fill
      (Glop_assign (W_fill_filterMode md) (Glop_assign (W_fill_filter_color c) glop)))))
     = vector (Filter_matrix (filter (fill glop)))
   \<and> (Filter_Matrix_wf m \<longrightarrow>
        Filter_color (filter (fill
          (Glop_assign (W_fill_filterMode md) (Glop_assign (W_fill_filter_matrix m) glop))))
        = \<lparr>a = matrix m ! 0, r = matrix m ! 1, g = matrix m ! 2, b = matrix m ! 3\<rparr>)
   \<and> Filter_color_read (Glop_assign_exec (W_fill_filterMode md)
        (Glop_assign_exec (W_fill_filter_color c) (glop, act))) = Some c
   \<and> Filter_matrix_read (Glop_assign_exec (W_fill_filterMode md)
        (Glop_assign_exec (W_fill_filter_color c) (glop, act))) = None
   \<and> (Filter_Matrix_wf m \<longrightarrow>
        Filter_matrix_read (Glop_assign_exec (W_fill_filterMode md)
          (Glop_assign_exec (W_fill_filter_matrix m) (glop, act))) = Some m)
   \<and> Filter_color_read (Glop_assign_exec (W_fill_filterMode md)
        (Glop_assign_exec (W_fill_filter_matrix m) (glop, act))) = None
   \<and> Filter_matrix_read (Glop_assign_exec (W_fill_filterMode md) (glop, act))
     = Filter_matrix_read (glop, act)
   \<and> Filter_color_read (Glop_assign_exec (W_fill_filterMode md) (glop, act))
     = Filter_color_read (glop, act)"
  by (simp add: Filter_matrix_after_color_update Filter_color_after_matrix_update
      Filter_matrix_after_update Filter_color_after_update FloatColor_slots_def
      Filter_matrix_read_def Filter_color_read_def Glop_assign_exec_def)

theorem Filter_arms_share_storage_witness:
  "Filter_Matrix_wf identity_filter
   \<and> Filter_color (filter (fill (Glop_assign (W_fill_filterMode kColorBlend)
        (Glop_assign (W_fill_filter_matrix identity_filter) solid_triangle))))
     = \<lparr>a = 0x3F800000, r = 0, g = 0, b = 0\<rparr>
   \<and> take 4 (matrix (Filter_matrix (filter (fill (Glop_assign (W_fill_filterMode kColorMatrix)
        (Glop_assign (W_fill_filter_color half_grey) solid_triangle))))))
     = [0x3F800000, 0x3F000000, 0x3F000000, 0x3F000000]
   \<and> Filter_matrix_read (Glop_assign_exec (W_fill_filterMode kColorBlend)
        (Glop_assign_exec (W_fill_filter_matrix identity_filter) (solid_triangle, Some Arm_color)))
     = Some identity_filter
   \<and> Filter_color_read (Glop_assign_exec (W_fill_filterMode kColorBlend)
        (Glop_assign_exec (W_fill_filter_matrix identity_filter) (solid_triangle, Some Arm_color)))
     = None
   \<and> Filter_color_read (Glop_assign_exec (W_fill_filterMode kColorMatrix)
        (Glop_assign_exec (W_fill_filter_color half_grey) (solid_triangle, Some Arm_matrix)))
     = Some half_grey"
  using Filter_arms_share_storage [of kColorBlend half_grey solid_triangle identity_filter
      "Some Arm_color"]
    Filter_arms_share_storage [of kColorMatrix half_grey solid_triangle identity_filter
      "Some Arm_matrix"]
    identity_filter_wf
  by (simp add: identity_filter_def identity16_def half_grey_def)

subsection \<open>Vertex-attribute flags\<close>

text \<open>
  C5: the enumeration has, besides the empty value 0, exactly the three
  enumerators texture-coordinate, colour and alpha, with the distinct
  single-bit values 1, 2 and 4; there is no enumerator for position, and the
  bits of any flag value that the enumeration covers split into these three
  flags alone. Any combination of the three, all three together included, is
  a flag value from which each flag reads back as it was set.
\<close>

theorem VertexAttribFlags_three_bits:
  "VertexAttribFlags_enumerators = [0, 2 ^ 0, 2 ^ 1, 2 ^ 2]
   \<and> distinct VertexAttribFlags_enumerators
   \<and> has_Attrib (VertexAttribFlags_of t c al) kTextureCoord_Attrib = t
   \<and> has_Attrib (VertexAttribFlags_of t c al) kColor_Attrib = c
   \<and> has_Attrib (VertexAttribFlags_of t c al) kAlpha_Attrib = al
   \<and> VertexAttribFlags_of True True True = 7
   \<and> fold (OR) VertexAttribFlags_enumerators 0 = VertexAttribFlags_of True True True
   \<and> v AND VertexAttribFlags_of True True True =
       VertexAttribFlags_of (has_Attrib v kTextureCoord_Attrib)
         (has_Attrib v kColor_Attrib) (has_Attrib v kAlpha_Attrib)"
proof -
  have seven: "VertexAttribFlags_of True True True = 7"
    by (simp add: VertexAttribFlags_of_def Attrib_defs)
  have "has_Attrib (VertexAttribFlags_of t c al) kTextureCoord_Attrib = t"
    by (simp add: has_Attrib_def VertexAttribFlags_of_def Attrib_defs)
  moreover have "has_Attrib (VertexAttribFlags_of t c al) kColor_Attrib = c"
    by (simp add: has_Attrib_def VertexAttribFlags_of_def Attrib_defs)
  moreover have "has_Attrib (VertexAttribFlags_of t c al) kAlpha_Attrib = al"
    by (simp add: has_Attrib_def VertexAttribFlags_of_def Attrib_defs)
  moreover have "VertexAttribFlags_enumerators = [0, 2 ^ 0, 2 ^ 1, 2 ^ 2]"
    by (simp add: VertexAttribFlags_enumerators_def Attrib_defs)
  moreover have "distinct VertexAttribFlags_enumerators"
    by (simp add: VertexAttribFlags_enumerators_def Attrib_defs)
  moreover have "fold (OR) VertexAttribFlags_enumerators 0 = VertexAttribFlags_of True True True"
    by (simp add: VertexAttribFlags_enumerators_def VertexAttribFlags_of_def Attrib_defs)
  ultimately show ?thesis
    using seven flags_decompose [of v] by simp
qed

subsection \<open>The fill colour\<close>

text \<open>
  C6: the fill colour is four 32-bit floats in the order alpha, red, green,
  blue: after a colour is assigned, its components read in declaration order
  are alpha, then red, green, blue.
\<close>

theorem FloatColor_channel_order:
  "FloatColor_slots (color (fill
      (Glop_assign (W_fill_color \<lparr>a = alpha, r = red, g = green, b = blue\<rparr>) glop)))
     = [alpha, red, green, blue]
   \<and> map size (FloatColor_slots (color (fill glop))) = [32, 32, 32, 32]"
  by (simp add: FloatColor_slots_def word_size)

subsection \<open>The mesh fields\<close>

text \<open>
  C7, as stated, fails: a value-initialised descriptor has primitive mode 0,
  and the field accepts 1 (GL_LINES) by assignment; neither is GL_TRIANGLES or
  GL_TRIANGLE_STRIP.
\<close>

theorem primitiveMode_unsupported_value:
  "\<not> primitiveMode_supported (primitiveMode (mesh (Glop_value_init [0, 0, 0, 0] identity16)))
   \<and> \<not> primitiveMode_supported
        (primitiveMode (mesh (Glop_assign (W_mesh_primitiveMode 1) solid_triangle)))"
  by (simp add: primitiveMode_supported_def Glop_value_init_def Mesh_zero_def GL_TRIANGLES_def
      GL_TRIANGLE_STRIP_def)

text \<open>
  C7, amended: the primitive mode is an unsigned 32-bit field that holds
  whatever value is assigned to it (a value-initialised descriptor holds 0);
  the supported values are the two distinct values GL_TRIANGLES (4) and
  GL_TRIANGLE_STRIP (5), and no others.
\<close>

theorem primitiveMode_stores_any_value:
  "primitiveMode (mesh (Glop_assign (W_mesh_primitiveMode p) glop)) = p
   \<and> primitiveMode_supported p = (p = 4 \<or> p = 5)
   \<and> primitiveMode_supported GL_TRIANGLES
   \<and> primitiveMode_supported GL_TRIANGLE_STRIP
   \<and> GL_TRIANGLES \<noteq> GL_TRIANGLE_STRIP
   \<and> primitiveMode (mesh (Glop_value_init rect0 mat0)) = 0"
  by (simp add: primitiveMode_supported_def GL_TRIANGLES_def GL_TRIANGLE_STRIP_def
      Glop_value_init_def Mesh_zero_def)

text \<open>
  C8, as stated, fails: \<^verbatim>\<open>vertexCount\<close> is an \<^verbatim>\<open>int\<close>, and after
  \<^verbatim>\<open>glop.mesh.vertexCount = -1;\<close> it is negative.
\<close>

theorem vertexCount_negative:
  "sint (vertexCount (mesh (Glop_assign (W_mesh_vertexCount (- 1)) solid_triangle))) < 0"
  by simp

text \<open>
  C8, amended: the vertex count is a signed 32-bit integer, at least \<open>-2^31\<close>
  and below \<open>2^31\<close>, and it holds whatever value is assigned to it.
\<close>

theorem vertexCount_signed_range:
  "sint (vertexCount (mesh (Glop_assign (W_mesh_vertexCount n) glop))) = sint n
   \<and> - (2 ^ 31) \<le> sint (vertexCount (mesh glop))
   \<and> sint (vertexCount (mesh glop)) < 2 ^ 31"
  using sint_32_range [of "vertexCount (mesh glop)"] by simp

subsection \<open>Independence of the members\<close>

text \<open>
  C10: an assignment to a field of one of the five members bounds, mesh, fill,
  transform and blend leaves the other four members unchanged; and inside the
  fill, assigning the filter mode leaves the filter payload unchanged, and
  assigning either arm of the payload leaves the filter mode unchanged.
\<close>

theorem Glop_members_independent:
  "(member_of w \<noteq> M_bounds \<longrightarrow> bounds (Glop_assign w glop) = bounds glop)
   \<and> (member_of w \<noteq> M_mesh \<longrightarrow> mesh (Glop_assign w glop) = mesh glop)
   \<and> (member_of w \<noteq> M_fill \<longrightarrow> fill (Glop_assign w glop) = fill glop)
   \<and> (member_of w \<noteq> M_transform \<longrightarrow> transform (Glop_assign w glop) = transform glop)
   \<and> (member_of w \<noteq> M_blend \<longrightarrow> blend (Glop_assign w glop) = blend glop)
   \<and> filter (fill (Glop_assign (W_fill_filterMode md) glop)) = filter (fill glop)
   \<and> filterMode (fill (Glop_assign (W_fill_filter_matrix m) glop)) = filterMode (fill glop)
   \<and> filterMode (fill (Glop_assign (W_fill_filter_color c) glop)) = filterMode (fill glop)"
  by (cases w) simp_all

theorem Glop_members_independent_witness:
  "member_of (W_mesh_vertexCount 6 :: (float list, float list) Glop_write) \<noteq> M_bounds
   \<and> member_of (W_mesh_vertexCount 6 :: (float list, float list) Glop_write) \<noteq> M_fill
   \<and> member_of (W_mesh_vertexCount 6 :: (float list, float list) Glop_write) \<noteq> M_transform
   \<and> member_of (W_mesh_vertexCount 6 :: (float list, float list) Glop_write) \<noteq> M_blend
   \<and> member_of (W_blend_src 770 :: (float list, float list) Glop_write) \<noteq> M_mesh
   \<and> bounds (Glop_assign (W_mesh_vertexCount 6) solid_triangle) = [0, 0, 0x42C80000, 0x42C80000]
   \<and> fill (Glop_assign (W_mesh_vertexCount 6) solid_triangle) = fill solid_triangle
   \<and> transform (Glop_assign (W_mesh_vertexCount 6) solid_triangle) = transform solid_triangle
   \<and> blend (Glop_assign (W_mesh_vertexCount 6) solid_triangle) = \<lparr>src = 1, dst = 0\<rparr>
   \<and> vertexCount (mesh (Glop_assign (W_mesh_vertexCount 6) solid_triangle)) = 6
   \<and> mesh (Glop_assign (W_blend_src 770) solid_triangle) = mesh solid_triangle
   \<and> src (blend (Glop_assign (W_blend_src 770) solid_triangle)) = 770"
  using Glop_members_independent [of "W_mesh_vertexCount 6" solid_triangle]
    Glop_members_independent [of "W_blend_src 770" solid_triangle]
  by (simp add: solid_triangle_def)

end
